theory Spec2Isabelle
  imports Main
begin

section \<open>The ipinfo.io Telegram bot (ipinfoio\_bot.py)\<close>

text \<open>
  The bot's handlers are coroutines that talk to three collaborators: the chat (sending
  messages), the HTTP client (the ipinfo.io lookup) and the usage tracker. A handler is
  modelled as a function returning the list of calls it made on those collaborators, in
  order, together with its outcome: \<open>Inr\<close> for a normal return, \<open>Inl\<close> for the exception
  that left it. What the collaborators answer is read from an environment, which stands
  for the arguments \<open>self\<close> and \<open>chat\<close> of a handler. Calls on the logger are left out.
  The method \<open>help\<close> of the bot is \<open>help_cmd\<close> here.
\<close>

subsection \<open>Exceptions, calls and outcomes\<close>

datatype py_error = ValueError | KeyError string | IndexError | ClientError

datatype effect =
    Send_to_chat string "(string \<times> string) list"
  | Reply string
  | Send_text string
  | Get string
  | Track int string

type_synonym 'a io = "effect list \<times> (py_error + 'a)"

definition return :: "'a \<Rightarrow> 'a io" where
  "return v = ([], Inr v)"

definition raise :: "py_error \<Rightarrow> 'a io" where
  "raise e = ([], Inl e)"

definition await :: "'a io \<Rightarrow> ('a \<Rightarrow> 'b io) \<Rightarrow> 'b io" where
  "await m f =
     (case m of
        (tr, Inl e) \<Rightarrow> (tr, Inl e)
      | (tr, Inr v) \<Rightarrow> (case f v of (tr', r) \<Rightarrow> (tr @ tr', r)))"

fun is_send :: "effect \<Rightarrow> bool" where
  "is_send (Send_to_chat method kwargs) = True"
| "is_send (Reply text) = True"
| "is_send (Send_text text) = True"
| "is_send (Get url) = False"
| "is_send (Track uid name) = False"

fun is_lookup :: "effect \<Rightarrow> bool" where
  "is_lookup (Get url) = True"
| "is_lookup e = False"

fun is_track :: "effect \<Rightarrow> bool" where
  "is_track (Track uid name) = True"
| "is_track e = False"

subsection \<open>What the collaborators answer\<close>

text \<open>
  The answer of \<open>chat._send_to_chat\<close> is the JSON object of the Bot API; only the path
  \<open>result.chat.id\<close> is read, with \<open>dict.get\<close>, so each level may be absent.
\<close>

datatype chat_json = Chat_json (id_of: "int option")

datatype message_json = Message_json (chat_of: "chat_json option")

datatype response = Response (result_of: "message_json option")

text \<open>
  \<open>ip_address\<close> stands for \<open>ipaddress.ip_address\<close> of the standard library (\<open>None\<close> is
  its \<open>ValueError\<close>) and \<open>str_ip\<close> for \<open>str\<close> of the address object it returns;
  \<open>client_get\<close> is \<open>client.get(url)\<close> followed by \<open>response.json()\<close>;
  \<open>chat_response\<close> is what \<open>chat._send_to_chat(method, **kwargs)\<close> returns;
  \<open>botan_token\<close> is the attribute of the bot.
\<close>

record 'a env =
  ip_address :: "string \<Rightarrow> 'a option"
  str_ip :: "'a \<Rightarrow> string"
  client_get :: "string \<Rightarrow> py_error + (string \<rightharpoonup> string)"
  chat_response :: "string \<Rightarrow> (string \<times> string) list \<Rightarrow> response"
  botan_token :: "string option"

definition send_to_chat :: "'a env \<Rightarrow> string \<Rightarrow> (string \<times> string) list \<Rightarrow> response io" where
  "send_to_chat w method kwargs = ([Send_to_chat method kwargs], Inr (chat_response w method kwargs))"

definition reply :: "string \<Rightarrow> unit io" where
  "reply text = ([Reply text], Inr ())"

definition send_text :: "string \<Rightarrow> unit io" where
  "send_text text = ([Send_text text], Inr ())"

definition track :: "int \<Rightarrow> string \<Rightarrow> unit io" where
  "track uid name = ([Track uid name], Inr ())"

subsection \<open>Module constants\<close>

definition IPINFO :: string where
  "IPINFO = ''https://ipinfo.io/''"

definition GREETING :: string where
  "GREETING = ''Hi! I'm ipinfo.io bot and I can give you IP geolocation '' @
              ''info about any IP address you send to me.\<newline>\<newline>'' @
              ''You can control me by sending these commands:\<newline>\<newline>'' @
              ''/ip {ip} - get infromation about the IP\<newline>'' @
              ''/geo {ip} - get location on a map for the IP''"

definition HELP :: string where
  "HELP = ''This bot allows you to get a simple information about '' @
          ''giving IP address. All data provided by http://ipinfo.io/ service.''"

definition BASE_TEMPLATE :: string where
  "BASE_TEMPLATE = ''\<newline>*{ip}*\<newline>\<newline>*Hostname*: {hostname}\<newline>*Network*: {org}\<newline>'' @
                   ''*Country*: {country}\<newline>*City*: {city}\<newline>*Latitude/Longitude*: {loc}\<newline>''"

definition REQUIRED_KEYS :: "string list" where
  "REQUIRED_KEYS = [''org'', ''country'', ''loc'', ''city'', ''hostname'']"

subsection \<open>Built-ins of Python the handlers use\<close>

text \<open>\<open>s.split(sep)\<close> for a one-character separator: never the empty list.\<close>

fun split_acc :: "char \<Rightarrow> string \<Rightarrow> string \<Rightarrow> string list" where
  "split_acc sep cur [] = [rev cur]"
| "split_acc sep cur (c # cs) =
     (if c = sep then rev cur # split_acc sep [] cs else split_acc sep (c # cur) cs)"

definition split :: "string \<Rightarrow> char \<Rightarrow> string list" where
  "split s sep = split_acc sep [] s"

text \<open>\<open>xs[i]\<close> for \<open>i \<ge> 0\<close>: \<open>IndexError\<close> out of range.\<close>

definition getitem :: "'b list \<Rightarrow> nat \<Rightarrow> py_error + 'b" where
  "getitem xs i = (if i < length xs then Inr (xs ! i) else Inl IndexError)"

text \<open>
  \<open>template.format(**data)\<close> for a template whose replacement fields are plain names in
  braces, as in \<open>BASE_TEMPLATE\<close>: the second argument is the field name being read
  (\<open>None\<close> outside braces). A name that is not a key raises \<open>KeyError\<close>; a template that
  ends inside a field raises \<open>ValueError\<close>.
\<close>

fun format_from :: "(string \<rightharpoonup> string) \<Rightarrow> string option \<Rightarrow> string \<Rightarrow> py_error + string" where
  "format_from data None [] = Inr []"
| "format_from data None (c # cs) =
     (if c = CHR ''{'' then format_from data (Some []) cs
      else (case format_from data None cs of Inl e \<Rightarrow> Inl e | Inr out \<Rightarrow> Inr (c # out)))"
| "format_from data (Some name) [] = Inl ValueError"
| "format_from data (Some name) (c # cs) =
     (if c = CHR ''}'' then
        (case data (rev name) of
           None \<Rightarrow> Inl (KeyError (rev name))
         | Some v \<Rightarrow> (case format_from data None cs of Inl e \<Rightarrow> Inl e | Inr out \<Rightarrow> Inr (v @ out)))
      else format_from data (Some (c # name)) cs)"

definition format :: "string \<Rightarrow> (string \<rightharpoonup> string) \<Rightarrow> py_error + string" where
  "format template data = format_from data None template"

text \<open>Truth values of \<open>if x:\<close> for an optional string and an optional integer.\<close>

fun truthy_str :: "string option \<Rightarrow> bool" where
  "truthy_str None = False"
| "truthy_str (Some s) = (s \<noteq> [])"

fun truthy_int :: "int option \<Rightarrow> bool" where
  "truthy_int None = False"
| "truthy_int (Some n) = (n \<noteq> 0)"

text \<open>
  A match object: the text matched and the groups \<open>1..n\<close> of the pattern, \<open>None\<close> for a
  group that took no part in the match. \<open>m.group(i)\<close> raises \<open>IndexError\<close> when the
  pattern has no group \<open>i\<close>.
\<close>

record match =
  whole :: string
  groups :: "string option list"

definition group :: "match \<Rightarrow> nat \<Rightarrow> py_error + string option" where
  "group m i =
     (if i = 0 then Inr (Some (whole m))
      else if i \<le> length (groups m) then Inr (groups m ! (i - 1))
      else Inl IndexError)"

subsection \<open>The handlers\<close>

text \<open>
  \<open>track_message\<close>: \<open>uid\<close> is \<open>message.get('result', {}).get('chat', {}).get('id', None)\<close>.
\<close>

definition get_uid :: "response \<Rightarrow> int option" where
  "get_uid message =
     (case result_of message of
        None \<Rightarrow> None
      | Some r \<Rightarrow> (case chat_of r of None \<Rightarrow> None | Some c \<Rightarrow> id_of c))"

definition track_message :: "'a env \<Rightarrow> response \<Rightarrow> string \<Rightarrow> unit io" where
  "track_message w message name =
     (let uid = get_uid message in
      if truthy_str (botan_token w) then
        (if truthy_int uid then
           (case uid of Some n \<Rightarrow> track n name | None \<Rightarrow> return ())
         else return ())
      else return ())"

definition ping :: "'a env \<Rightarrow> match \<Rightarrow> unit io" where
  "ping w m = send_text ''test pong!''"

definition ipinfo_query :: "'a env \<Rightarrow> string \<Rightarrow> (string \<rightharpoonup> string) io" where
  "ipinfo_query w params = (let url = IPINFO @ params in ([Get url], client_get w url))"

definition greeting :: "'a env \<Rightarrow> match \<Rightarrow> unit io" where
  "greeting w m =
     await (send_to_chat w ''sendMessage'' [(''text'', HELP), (''parse_mode'', ''Markdown'')])
       (\<lambda>response. return ())"

definition help_cmd :: "'a env \<Rightarrow> match \<Rightarrow> unit io" where
  "help_cmd w m =
     await (send_to_chat w ''sendMessage'' [(''text'', GREETING), (''parse_mode'', ''Markdown'')])
       (\<lambda>response. track_message w response ''Help'')"

text \<open>
  The decorator \<open>check_ip\<close>. The \<open>try\<close> block holds both the parse and the call of the
  decorated method, so a \<open>ValueError\<close> leaving the method is caught by the same clause.
\<close>

definition missing_text :: string where
  "missing_text = ''Please provide a valid ipv4 or ipv6 '' @
                  ''address for this command. '' @
                  ''Use /help command for examples.''"

definition invalid_text :: "string \<Rightarrow> string" where
  \<open>invalid_text ip = ''"'' @ ip @ ''" is not valid '' @ ''ipv4 or ipv6 address''\<close>

definition check_ip ::
  "('a env \<Rightarrow> match \<Rightarrow> 'a \<Rightarrow> unit io) \<Rightarrow> 'a env \<Rightarrow> match \<Rightarrow> unit io" where
  "check_ip method_to_decorate w m =
     (case group m 2 of
        Inl e \<Rightarrow> raise e
      | Inr None \<Rightarrow>
          await (send_to_chat w ''sendMessage'' [(''text'', missing_text), (''parse_mode'', ''Markdown'')])
            (\<lambda>response. return ())
      | Inr (Some ip) \<Rightarrow>
          if ip = [] then
            await (send_to_chat w ''sendMessage'' [(''text'', missing_text), (''parse_mode'', ''Markdown'')])
              (\<lambda>response. return ())
          else
            (case ip_address w ip of
               None \<Rightarrow> reply (invalid_text ip)
             | Some addr \<Rightarrow>
                 (case method_to_decorate w m addr of
                    (tr, Inl ValueError) \<Rightarrow> await (tr, Inr ()) (\<lambda>u. reply (invalid_text ip))
                  | (tr, r) \<Rightarrow> (tr, r))))"

text \<open>\<open>ip_base\<close>, lines 146 to 148: the loop that fills in the keys of \<open>REQUIRED_KEYS\<close>.\<close>

definition fill_required :: "(string \<rightharpoonup> string) \<Rightarrow> (string \<rightharpoonup> string)" where
  "fill_required data = fold (\<lambda>v d. if d v = None then d(v \<mapsto> []) else d) REQUIRED_KEYS data"

definition ip_base :: "'a env \<Rightarrow> match \<Rightarrow> 'a \<Rightarrow> unit io" where
  "ip_base w m addr =
     await (ipinfo_query w (str_ip w addr @ ''/json'')) (\<lambda>data.
     await ([], format BASE_TEMPLATE (fill_required data)) (\<lambda>reply_text.
     await (send_to_chat w ''sendMessage'' [(''text'', reply_text), (''parse_mode'', ''Markdown'')])
       (\<lambda>response. track_message w response ''Ip'')))"

text \<open>
  \<open>ip_geo\<close>, lines 159 to 169: the method and the keyword arguments of the send, from
  the answer of the lookup.
\<close>

definition geo_message :: "(string \<rightharpoonup> string) \<Rightarrow> py_error + (string \<times> (string \<times> string) list)" where
  "geo_message message =
     (case message ''loc'' of
        Some loc \<Rightarrow>
          (case getitem (split loc CHR '','') 0 of
             Inl e \<Rightarrow> Inl e
           | Inr latitude \<Rightarrow>
               (case getitem (split loc CHR '','') 1 of
                  Inl e \<Rightarrow> Inl e
                | Inr longitude \<Rightarrow>
                    Inr (''sendLocation'', [(''latitude'', latitude), (''longitude'', longitude)])))
      | None \<Rightarrow>
          Inr (''sendMessage'', [(''text'', ''Sorry, location is unknown for this address'')]))"

definition ip_geo :: "'a env \<Rightarrow> match \<Rightarrow> 'a \<Rightarrow> unit io" where
  "ip_geo w m addr =
     await (ipinfo_query w (str_ip w addr @ ''/geo'')) (\<lambda>message.
     await ([], geo_message message) (\<lambda>(method, kwargs).
     await (send_to_chat w method kwargs)
       (\<lambda>response. track_message w response ''Ip_Geo'')))"

subsection \<open>The command table\<close>

text \<open>
  The patterns of \<open>_commands\<close> are regular expressions over literals, \<open>.+\<close>,
  concatenation, alternation and numbered groups. \<open>rx r s\<close> lists the ways \<open>r\<close> matches
  a prefix of \<open>s\<close>, in the order a backtracking matcher tries them (the left alternative
  first, \<open>.+\<close> greedy and never across a newline): the text matched, the groups set
  and the rest of \<open>s\<close>.
\<close>

datatype regex = Lit string | Dot_plus | Cat regex regex | Alt regex regex | Grp nat regex

fun rx :: "regex \<Rightarrow> string \<Rightarrow> (string \<times> (nat \<times> string) list \<times> string) list" where
  "rx (Lit l) s = (if take (length l) s = l then [(l, [], drop (length l) s)] else [])"
| "rx Dot_plus s =
     map (\<lambda>k. (take k s, [], drop k s))
       (rev [1 ..< Suc (length (takeWhile (\<lambda>c. c \<noteq> CHR ''\<newline>'') s))])"
| "rx (Cat r1 r2) s =
     concat (map (\<lambda>(t1, g1, rest1). map (\<lambda>(t2, g2, rest2). (t1 @ t2, g1 @ g2, rest2)) (rx r2 rest1))
       (rx r1 s))"
| "rx (Alt r1 r2) s = rx r1 s @ rx r2 s"
| "rx (Grp n r) s = map (\<lambda>(t, g, rest). (t, (n, t) # g, rest)) (rx r s)"

fun ngroups :: "regex \<Rightarrow> nat" where
  "ngroups (Lit l) = 0"
| "ngroups Dot_plus = 0"
| "ngroups (Cat r1 r2) = max (ngroups r1) (ngroups r2)"
| "ngroups (Alt r1 r2) = max (ngroups r1) (ngroups r2)"
| "ngroups (Grp n r) = max n (ngroups r)"

text \<open>
  Modelled from the spec: the matching rule of the router, which lives in the base class
  \<open>Bot\<close> of the package \<open>aiotg\<close> and is not under src/. The spec (4.2): the command token
  must appear at the start of the message, optionally followed by the argument; the
  argument group may be absent.
\<close>

definition re_match :: "regex \<Rightarrow> string \<Rightarrow> match option" where
  "re_match r s =
     (case rx r s of
        [] \<Rightarrow> None
      | (t, g, rest) # others \<Rightarrow> Some \<lparr>whole = t, groups = map (map_of g) [1 ..< Suc (ngroups r)]\<rparr>)"

text \<open>The list \<open>self._commands\<close> of \<open>__init__\<close>, with the decorated methods.\<close>

definition commands :: "(regex \<times> ('a env \<Rightarrow> match \<Rightarrow> unit io)) list" where
  "commands =
     [(Lit ''/start'', greeting),
      (Lit ''/help'', help_cmd),
      (Lit ''/ping'', ping),
      (Grp 1 (Alt (Cat (Lit ''/ip '') (Grp 2 Dot_plus)) (Lit ''/ip'')), check_ip ip_base),
      (Grp 1 (Alt (Cat (Lit ''/geo '') (Grp 2 Dot_plus)) (Lit ''/geo'')), check_ip ip_geo)]"

text \<open>
  Modelled from the spec: the dispatch loop of the router, which lives in the base class
  \<open>Bot\<close> of the package \<open>aiotg\<close> and is not under src/. The spec (4.2): the router
  evaluates the patterns in registration order and invokes the first handler whose
  pattern matches; for unmatched text no handler fires.
\<close>

fun dispatch ::
  "(regex \<times> ('a env \<Rightarrow> match \<Rightarrow> unit io)) list \<Rightarrow> 'a env \<Rightarrow> string \<Rightarrow> unit io" where
  "dispatch [] w text = return ()"
| "dispatch ((pattern, handler) # rest) w text =
     (case re_match pattern text of
        Some m \<Rightarrow> handler w m
      | None \<Rightarrow> dispatch rest w text)"

subsection \<open>A sample environment\<close>

text \<open>
  An environment to run the handlers in: its address parser accepts the dotted-quad
  literals (four decimal octets up to 255, no leading zero) and nothing else, and an
  address prints as the literal it was read from; every lookup answers \<open>data\<close> and every
  send answers \<open>resp\<close>.
\<close>

definition octet_ok :: "string \<Rightarrow> bool" where
  "octet_ok p =
     (p \<noteq> [] \<and> length p \<le> 3 \<and> list_all (\<lambda>c. c \<in> set ''0123456789'') p \<and>
      (length p = 1 \<or> hd p \<noteq> CHR ''0'') \<and>
      foldl (\<lambda>n c. 10 * n + (of_char c - 48)) (0::nat) p \<le> 255)"

definition dotted_quad :: "string \<Rightarrow> bool" where
  "dotted_quad s = (length (split s CHR ''.'') = 4 \<and> list_all octet_ok (split s CHR ''.''))"

definition sample_env :: "py_error + (string \<rightharpoonup> string) \<Rightarrow> response \<Rightarrow> string option \<Rightarrow> string env" where
  "sample_env data resp token =
     \<lparr>ip_address = (\<lambda>s. if dotted_quad s then Some s else None),
      str_ip = (\<lambda>a. a),
      client_get = (\<lambda>url. data),
      chat_response = (\<lambda>method kwargs. resp),
      botan_token = token\<rparr>"

definition chat_42 :: response where
  "chat_42 = Response (Some (Message_json (Some (Chat_json (Some 42)))))"

section \<open>Properties\<close>

subsection \<open>Splitting, indexing and formatting\<close>

lemma hd_split_acc: "hd (split_acc sep cur s) = rev cur @ takeWhile (\<lambda>c. c \<noteq> sep) s"
  by (induction s arbitrary: cur) auto

lemma split_acc_no_sep: "sep \<notin> set s \<Longrightarrow> split_acc sep cur s = [rev cur @ s]"
  by (induction s arbitrary: cur) auto

lemma split_acc_sep:
  "sep \<in> set s \<Longrightarrow>
   split_acc sep cur s =
     (rev cur @ takeWhile (\<lambda>c. c \<noteq> sep) s) # split_acc sep [] (tl (dropWhile (\<lambda>c. c \<noteq> sep) s))"
  by (induction s arbitrary: cur) auto

lemma split_no_sep: "sep \<notin> set s \<Longrightarrow> split s sep = [s]"
  by (simp add: split_def split_acc_no_sep)

lemma split_sep:
  "sep \<in> set s \<Longrightarrow>
   split s sep = takeWhile (\<lambda>c. c \<noteq> sep) s # split (tl (dropWhile (\<lambda>c. c \<noteq> sep) s)) sep"
  by (simp add: split_def split_acc_sep)

lemma split_not_Nil: "split s sep \<noteq> []"
  by (cases "sep \<in> set s") (simp_all add: split_no_sep split_sep)

lemma hd_split: "hd (split s sep) = takeWhile (\<lambda>c. c \<noteq> sep) s"
  by (simp add: split_def hd_split_acc)

lemma getitem_split_0: "getitem (split s sep) 0 = Inr (takeWhile (\<lambda>c. c \<noteq> sep) s)"
  using split_not_Nil [of s sep] hd_split [of s sep]
  by (cases "split s sep") (simp_all add: getitem_def)

lemma getitem_split_1:
  "getitem (split s sep) (Suc 0) =
     (if sep \<in> set s then Inr (takeWhile (\<lambda>c. c \<noteq> sep) (tl (dropWhile (\<lambda>c. c \<noteq> sep) s)))
      else Inl IndexError)"
proof (cases "sep \<in> set s")
  case True
  let ?rest = "tl (dropWhile (\<lambda>c. c \<noteq> sep) s)"
  have "split ?rest sep \<noteq> []" by (rule split_not_Nil)
  then obtain y ys where ys: "split ?rest sep = y # ys" by (cases "split ?rest sep") auto
  with hd_split [of ?rest sep] have "y = takeWhile (\<lambda>c. c \<noteq> sep) ?rest" by simp
  with True ys show ?thesis by (simp add: split_sep getitem_def)
next
  case False
  then show ?thesis by (simp add: split_no_sep getitem_def)
qed

lemma geo_message_cases:
  "geo_message message =
     (case message ''loc'' of
        None \<Rightarrow> Inr (''sendMessage'', [(''text'', ''Sorry, location is unknown for this address'')])
      | Some loc \<Rightarrow>
          if CHR '','' \<in> set loc then
            Inr (''sendLocation'',
                 [(''latitude'', takeWhile (\<lambda>c. c \<noteq> CHR '','') loc),
                  (''longitude'', takeWhile (\<lambda>c. c \<noteq> CHR '','') (tl (dropWhile (\<lambda>c. c \<noteq> CHR '','') loc)))])
          else Inl IndexError)"
  by (simp add: geo_message_def getitem_split_0 getitem_split_1 split: option.splits)

lemma track_message_eq:
  "track_message w message name =
     ((case get_uid message of
         None \<Rightarrow> []
       | Some uid \<Rightarrow> if truthy_str (botan_token w) \<and> uid \<noteq> 0 then [Track uid name] else []),
      Inr ())"
  by (simp add: track_message_def track_def return_def Let_def split: option.splits)

lemma track_message_no_send: "filter is_send (fst (track_message w message name)) = []"
  by (simp add: track_message_eq split: option.splits)

lemma track_message_no_lookup: "filter is_lookup (fst (track_message w message name)) = []"
  by (simp add: track_message_eq split: option.splits)

lemma track_message_returns: "snd (track_message w message name) = Inr ()"
  by (simp add: track_message_eq)

lemma track_message_label:
  "Track uid label \<in> set (fst (track_message w message name)) \<Longrightarrow> label = name"
  by (auto simp: track_message_eq split: option.splits if_splits)

lemma ip_geo_eq:
  "ip_geo w m addr =
     (case client_get w (IPINFO @ str_ip w addr @ ''/geo'') of
        Inl e \<Rightarrow> ([Get (IPINFO @ str_ip w addr @ ''/geo'')], Inl e)
      | Inr message \<Rightarrow>
          (case geo_message message of
             Inl e \<Rightarrow> ([Get (IPINFO @ str_ip w addr @ ''/geo'')], Inl e)
           | Inr (method, kwargs) \<Rightarrow>
               (Get (IPINFO @ str_ip w addr @ ''/geo'') # Send_to_chat method kwargs #
                  fst (track_message w (chat_response w method kwargs) ''Ip_Geo''),
                Inr ())))"
  by (simp add: ip_geo_def ipinfo_query_def await_def send_to_chat_def track_message_eq Let_def
        split: sum.splits prod.splits)

lemma ip_base_eq:
  "ip_base w m addr =
     (case client_get w (IPINFO @ str_ip w addr @ ''/json'') of
        Inl e \<Rightarrow> ([Get (IPINFO @ str_ip w addr @ ''/json'')], Inl e)
      | Inr data \<Rightarrow>
          (case format BASE_TEMPLATE (fill_required data) of
             Inl e \<Rightarrow> ([Get (IPINFO @ str_ip w addr @ ''/json'')], Inl e)
           | Inr text \<Rightarrow>
               (Get (IPINFO @ str_ip w addr @ ''/json'') #
                Send_to_chat ''sendMessage'' [(''text'', text), (''parse_mode'', ''Markdown'')] #
                  fst (track_message w
                    (chat_response w ''sendMessage'' [(''text'', text), (''parse_mode'', ''Markdown'')]) ''Ip''),
                Inr ())))"
  by (simp add: ip_base_def ipinfo_query_def await_def send_to_chat_def track_message_eq Let_def
        split: sum.splits prod.splits)

lemma fill_required_eq:
  "fill_required data =
     (\<lambda>k. if k \<in> set REQUIRED_KEYS then Some (case data k of None \<Rightarrow> [] | Some v \<Rightarrow> v) else data k)"
  by (rule ext) (simp add: fill_required_def REQUIRED_KEYS_def split: option.splits)

lemma format_base:
  "format BASE_TEMPLATE (fill_required data) =
     (case data ''ip'' of
        None \<Rightarrow> Inl (KeyError ''ip'')
      | Some ip \<Rightarrow>
          Inr (''\<newline>*'' @ ip @ ''*\<newline>\<newline>*Hostname*: '' @ (case data ''hostname'' of None \<Rightarrow> [] | Some v \<Rightarrow> v) @
               ''\<newline>*Network*: '' @ (case data ''org'' of None \<Rightarrow> [] | Some v \<Rightarrow> v) @
               ''\<newline>*Country*: '' @ (case data ''country'' of None \<Rightarrow> [] | Some v \<Rightarrow> v) @
               ''\<newline>*City*: '' @ (case data ''city'' of None \<Rightarrow> [] | Some v \<Rightarrow> v) @
               ''\<newline>*Latitude/Longitude*: '' @ (case data ''loc'' of None \<Rightarrow> [] | Some v \<Rightarrow> v) @ ''\<newline>''))"
  by (simp add: format_def BASE_TEMPLATE_def fill_required_eq REQUIRED_KEYS_def split: option.splits)

subsection \<open>The paths through the decorator\<close>

lemma check_ip_missing:
  "group m 2 = Inr None \<or> group m 2 = Inr (Some []) \<Longrightarrow>
   check_ip decorated w m =
     ([Send_to_chat ''sendMessage'' [(''text'', missing_text), (''parse_mode'', ''Markdown'')]], Inr ())"
  by (auto simp: check_ip_def await_def send_to_chat_def return_def)

lemma check_ip_rejected:
  "group m 2 = Inr (Some raw) \<Longrightarrow> raw \<noteq> [] \<Longrightarrow> ip_address w raw = None \<Longrightarrow>
   check_ip decorated w m = ([Reply (invalid_text raw)], Inr ())"
  by (simp add: check_ip_def reply_def)

lemma check_ip_accepted:
  "group m 2 = Inr (Some raw) \<Longrightarrow> raw \<noteq> [] \<Longrightarrow> ip_address w raw = Some addr \<Longrightarrow>
   check_ip decorated w m =
     (case decorated w m addr of
        (tr, Inl ValueError) \<Rightarrow> (tr @ [Reply (invalid_text raw)], Inr ())
      | (tr, r) \<Rightarrow> (tr, r))"
  by (simp add: check_ip_def reply_def await_def split: prod.splits sum.splits py_error.splits)

lemma check_ip_group_error:
  "group m 2 = Inl e \<Longrightarrow> check_ip decorated w m = ([], Inl e)"
  by (simp add: check_ip_def raise_def)

lemma ip_base_track:
  "Track uid label \<in> set (fst (ip_base w m addr)) \<Longrightarrow> label = ''Ip''"
  by (auto simp: ip_base_eq split: sum.splits dest: track_message_label)

lemma ip_geo_track:
  "Track uid label \<in> set (fst (ip_geo w m addr)) \<Longrightarrow> label = ''Ip_Geo''"
  by (auto simp: ip_geo_eq split: sum.splits dest: track_message_label)

lemma check_ip_track:
  assumes "Track uid label \<in> set (fst (check_ip decorated w m))"
  shows "\<exists>raw addr. group m 2 = Inr (Some raw) \<and> raw \<noteq> [] \<and> ip_address w raw = Some addr \<and>
           Track uid label \<in> set (fst (decorated w m addr))"
proof (cases "group m 2")
  case (Inl e)
  with assms show ?thesis by (simp add: check_ip_group_error)
next
  case (Inr arg)
  show ?thesis
  proof (cases arg)
    case None
    with Inr assms show ?thesis by (simp add: check_ip_missing)
  next
    case (Some raw)
    show ?thesis
    proof (cases "raw = []")
      case True
      with Inr Some assms show ?thesis by (simp add: check_ip_missing)
    next
      case False
      show ?thesis
      proof (cases "ip_address w raw")
        case None
        with Inr Some False assms show ?thesis by (simp add: check_ip_rejected)
      next
        case (Some addr)
        with Inr \<open>arg = Some raw\<close> False have
          "check_ip decorated w m =
             (case decorated w m addr of
                (tr, Inl ValueError) \<Rightarrow> (tr @ [Reply (invalid_text raw)], Inr ())
              | (tr, r) \<Rightarrow> (tr, r))"
          by (simp add: check_ip_accepted)
        with assms have "Track uid label \<in> set (fst (decorated w m addr))"
          by (auto split: prod.splits sum.splits py_error.splits)
        with Inr \<open>arg = Some raw\<close> False Some show ?thesis by auto
      qed
    qed
  qed
qed

subsection \<open>The replies of \<open>/geo\<close> and \<open>/ip\<close>\<close>

text \<open>
  Claim C1, as amended. Let the \<open>/geo\<close> lookup answer the record \<open>message\<close>. If \<open>loc\<close>
  is absent, \<open>ip_geo\<close> sends exactly one message, the text ``Sorry, location is unknown
  for this address'', and returns. If \<open>loc\<close> is present and contains a comma, \<open>ip_geo\<close>
  sends exactly one message, a location whose latitude is the part of \<open>loc\<close> before its
  first comma and whose longitude is the part between the first comma and the second
  (up to the end when there is no second), neither checked to be a number, and returns.
  The witness runs both cases; the counterexample shows a \<open>loc\<close> without comma, where
  nothing is sent, and a \<open>loc\<close> with two commas, where the longitude is not the rest of
  the string after the first comma.
\<close>

theorem ip_geo_reply:
  assumes "client_get w (IPINFO @ str_ip w addr @ ''/geo'') = Inr message"
  shows
    "(message ''loc'' = None \<longrightarrow>
        filter is_send (fst (ip_geo w m addr)) =
          [Send_to_chat ''sendMessage'' [(''text'', ''Sorry, location is unknown for this address'')]] \<and>
        snd (ip_geo w m addr) = Inr ()) \<and>
     (\<forall>loc. message ''loc'' = Some loc \<and> CHR '','' \<in> set loc \<longrightarrow>
        filter is_send (fst (ip_geo w m addr)) =
          [Send_to_chat ''sendLocation''
             [(''latitude'', takeWhile (\<lambda>c. c \<noteq> CHR '','') loc),
              (''longitude'', takeWhile (\<lambda>c. c \<noteq> CHR '','') (tl (dropWhile (\<lambda>c. c \<noteq> CHR '','') loc)))]] \<and>
        snd (ip_geo w m addr) = Inr ())"
  using assms by (simp add: ip_geo_eq geo_message_cases track_message_no_send)

theorem ip_geo_reply_witness:
  "filter is_send (fst (ip_geo (sample_env (Inr [''loc'' \<mapsto> ''37.4,-122.1'']) chat_42 None)
       \<lparr>whole = ''/geo 8.8.8.8'', groups = [Some ''/geo 8.8.8.8'', Some ''8.8.8.8'']\<rparr> ''8.8.8.8'')) =
     [Send_to_chat ''sendLocation'' [(''latitude'', ''37.4''), (''longitude'', ''-122.1'')]] \<and>
   filter is_send (fst (ip_geo (sample_env (Inr Map.empty) chat_42 None)
       \<lparr>whole = ''/geo 8.8.8.8'', groups = [Some ''/geo 8.8.8.8'', Some ''8.8.8.8'']\<rparr> ''8.8.8.8'')) =
     [Send_to_chat ''sendMessage'' [(''text'', ''Sorry, location is unknown for this address'')]]"
proof -
  let ?m = "\<lparr>whole = ''/geo 8.8.8.8'', groups = [Some ''/geo 8.8.8.8'', Some ''8.8.8.8'']\<rparr>"
  let ?w1 = "sample_env (Inr [''loc'' \<mapsto> ''37.4,-122.1'']) chat_42 None"
  let ?w2 = "sample_env (Inr Map.empty) chat_42 None"
  have 1: "client_get ?w1 (IPINFO @ str_ip ?w1 ''8.8.8.8'' @ ''/geo'') = Inr [''loc'' \<mapsto> ''37.4,-122.1'']"
    by (simp add: sample_env_def)
  have 2: "client_get ?w2 (IPINFO @ str_ip ?w2 ''8.8.8.8'' @ ''/geo'') = Inr Map.empty"
    by (simp add: sample_env_def)
  from ip_geo_reply [OF 1, of ?m] ip_geo_reply [OF 2, of ?m] show ?thesis
    by simp
qed

theorem ip_geo_reply_counterexample:
  "ip_geo (sample_env (Inr [''loc'' \<mapsto> ''37.4'']) chat_42 None)
       \<lparr>whole = ''/geo 8.8.8.8'', groups = [Some ''/geo 8.8.8.8'', Some ''8.8.8.8'']\<rparr> ''8.8.8.8'' =
     ([Get ''https://ipinfo.io/8.8.8.8/geo''], Inl IndexError) \<and>
   ip_geo (sample_env (Inr [''loc'' \<mapsto> ''1,2,3'']) chat_42 None)
       \<lparr>whole = ''/geo 8.8.8.8'', groups = [Some ''/geo 8.8.8.8'', Some ''8.8.8.8'']\<rparr> ''8.8.8.8'' =
     ([Get ''https://ipinfo.io/8.8.8.8/geo'',
       Send_to_chat ''sendLocation'' [(''latitude'', ''1''), (''longitude'', ''2'')]], Inr ())"
  by (simp add: ip_geo_eq geo_message_cases sample_env_def IPINFO_def track_message_eq get_uid_def chat_42_def)

lemma track_message_not_send_to_chat:
  "Send_to_chat method kwargs \<notin> set (fst (track_message w message name))"
  by (simp add: track_message_eq split: option.splits)

text \<open>
  Claim C9. Let the \<open>/geo\<close> lookup answer the record \<open>message\<close>. If \<open>loc\<close> is present
  and contains no comma, reading the second component of the split raises \<open>IndexError\<close>,
  \<open>ip_geo\<close> ends with that error after the lookup and before any send, and the decorator
  lets the error through. A location is sent exactly when \<open>loc\<close> is present and contains
  a comma.
\<close>

theorem ip_geo_needs_comma:
  assumes "client_get w (IPINFO @ str_ip w addr @ ''/geo'') = Inr message"
  shows
    "(\<forall>loc. message ''loc'' = Some loc \<and> CHR '','' \<notin> set loc \<longrightarrow>
        getitem (split loc CHR '','') 1 = Inl IndexError \<and>
        ip_geo w m addr = ([Get (IPINFO @ str_ip w addr @ ''/geo'')], Inl IndexError) \<and>
        (\<forall>m' raw. group m' 2 = Inr (Some raw) \<and> raw \<noteq> [] \<and> ip_address w raw = Some addr \<longrightarrow>
           check_ip ip_geo w m' = ([Get (IPINFO @ str_ip w addr @ ''/geo'')], Inl IndexError))) \<and>
     ((\<exists>kwargs. Send_to_chat ''sendLocation'' kwargs \<in> set (fst (ip_geo w m addr))) \<longleftrightarrow>
      (\<exists>loc. message ''loc'' = Some loc \<and> CHR '','' \<in> set loc))"
proof -
  have geo: "\<And>m. message ''loc'' = Some loc \<Longrightarrow> CHR '','' \<notin> set loc \<Longrightarrow>
      ip_geo w m addr = ([Get (IPINFO @ str_ip w addr @ ''/geo'')], Inl IndexError)" for loc
    using assms by (simp add: ip_geo_eq geo_message_cases)
  have dec: "message ''loc'' = Some loc \<Longrightarrow> CHR '','' \<notin> set loc \<Longrightarrow>
      group m' 2 = Inr (Some raw) \<Longrightarrow> raw \<noteq> [] \<Longrightarrow> ip_address w raw = Some addr \<Longrightarrow>
      check_ip ip_geo w m' = ([Get (IPINFO @ str_ip w addr @ ''/geo'')], Inl IndexError)" for loc m' raw
    by (simp add: check_ip_accepted geo)
  have idx: "CHR '','' \<notin> set loc \<Longrightarrow> getitem (split loc CHR '','') 1 = Inl IndexError" for loc
    using getitem_split_1 [of loc "CHR '',''"] by simp
  have iff: "(\<exists>kwargs. Send_to_chat ''sendLocation'' kwargs \<in> set (fst (ip_geo w m addr))) \<longleftrightarrow>
      (\<exists>loc. message ''loc'' = Some loc \<and> CHR '','' \<in> set loc)"
    using assms
    by (cases "message ''loc''")
       (simp_all add: ip_geo_eq geo_message_cases track_message_not_send_to_chat)
  from geo dec idx iff show ?thesis by blast
qed

theorem ip_geo_needs_comma_witness:
  "ip_geo (sample_env (Inr [''loc'' \<mapsto> ''Mountain View'']) chat_42 (Some ''token''))
       \<lparr>whole = ''/geo 8.8.8.8'', groups = [Some ''/geo 8.8.8.8'', Some ''8.8.8.8'']\<rparr> ''8.8.8.8'' =
     ([Get ''https://ipinfo.io/8.8.8.8/geo''], Inl IndexError) \<and>
   check_ip ip_geo (sample_env (Inr [''loc'' \<mapsto> ''Mountain View'']) chat_42 (Some ''token''))
       \<lparr>whole = ''/geo 8.8.8.8'', groups = [Some ''/geo 8.8.8.8'', Some ''8.8.8.8'']\<rparr> =
     ([Get ''https://ipinfo.io/8.8.8.8/geo''], Inl IndexError)"
proof -
  let ?m = "\<lparr>whole = ''/geo 8.8.8.8'', groups = [Some ''/geo 8.8.8.8'', Some ''8.8.8.8'']\<rparr>"
  let ?w = "sample_env (Inr [''loc'' \<mapsto> ''Mountain View'']) chat_42 (Some ''token'')"
  have 1: "client_get ?w (IPINFO @ str_ip ?w ''8.8.8.8'' @ ''/geo'') = Inr [''loc'' \<mapsto> ''Mountain View'']"
    by (simp add: sample_env_def)
  have 2: "group ?m 2 = Inr (Some ''8.8.8.8'')"
    by (simp add: group_def)
  have 3: "ip_address ?w ''8.8.8.8'' = Some ''8.8.8.8''"
    by (simp add: sample_env_def dotted_quad_def octet_ok_def split_def)
  have 4: "str_ip ?w ''8.8.8.8'' = ''8.8.8.8''"
    by (simp add: sample_env_def)
  from ip_geo_needs_comma [OF 1, of ?m] 2 3 4 show ?thesis
    by (simp add: IPINFO_def)
qed

text \<open>
  Claim C3, as amended. Let the \<open>/ip\<close> lookup answer the record \<open>data\<close>, and let \<open>data\<close>
  hold the key \<open>ip\<close>. Then each key of \<open>REQUIRED_KEYS\<close> absent from \<open>data\<close> is given the
  empty string, and \<open>ip_base\<close> sends exactly one message, the template with the fields
  filled in (the empty string for an absent one), and returns. The counterexample is
  the empty record, which misses the five keys and \<open>ip\<close>: the format raises
  \<open>KeyError\<close> for \<open>ip\<close> and nothing is sent.
\<close>

theorem ip_base_reply:
  assumes "client_get w (IPINFO @ str_ip w addr @ ''/json'') = Inr data"
    and "data ''ip'' = Some ip"
  shows
    "(\<forall>k \<in> set REQUIRED_KEYS. fill_required data k = Some (case data k of None \<Rightarrow> [] | Some v \<Rightarrow> v)) \<and>
     filter is_send (fst (ip_base w m addr)) =
       [Send_to_chat ''sendMessage''
          [(''text'',
            ''\<newline>*'' @ ip @ ''*\<newline>\<newline>*Hostname*: '' @ (case data ''hostname'' of None \<Rightarrow> [] | Some v \<Rightarrow> v) @
            ''\<newline>*Network*: '' @ (case data ''org'' of None \<Rightarrow> [] | Some v \<Rightarrow> v) @
            ''\<newline>*Country*: '' @ (case data ''country'' of None \<Rightarrow> [] | Some v \<Rightarrow> v) @
            ''\<newline>*City*: '' @ (case data ''city'' of None \<Rightarrow> [] | Some v \<Rightarrow> v) @
            ''\<newline>*Latitude/Longitude*: '' @ (case data ''loc'' of None \<Rightarrow> [] | Some v \<Rightarrow> v) @ ''\<newline>''),
           (''parse_mode'', ''Markdown'')]] \<and>
     snd (ip_base w m addr) = Inr ()"
proof -
  have "\<forall>k \<in> set REQUIRED_KEYS. fill_required data k = Some (case data k of None \<Rightarrow> [] | Some v \<Rightarrow> v)"
    by (simp add: fill_required_eq)
  moreover from assms have
    "filter is_send (fst (ip_base w m addr)) =
       [Send_to_chat ''sendMessage''
          [(''text'',
            ''\<newline>*'' @ ip @ ''*\<newline>\<newline>*Hostname*: '' @ (case data ''hostname'' of None \<Rightarrow> [] | Some v \<Rightarrow> v) @
            ''\<newline>*Network*: '' @ (case data ''org'' of None \<Rightarrow> [] | Some v \<Rightarrow> v) @
            ''\<newline>*Country*: '' @ (case data ''country'' of None \<Rightarrow> [] | Some v \<Rightarrow> v) @
            ''\<newline>*City*: '' @ (case data ''city'' of None \<Rightarrow> [] | Some v \<Rightarrow> v) @
            ''\<newline>*Latitude/Longitude*: '' @ (case data ''loc'' of None \<Rightarrow> [] | Some v \<Rightarrow> v) @ ''\<newline>''),
           (''parse_mode'', ''Markdown'')]]"
    by (simp add: ip_base_eq format_base track_message_no_send)
  moreover from assms have "snd (ip_base w m addr) = Inr ()"
    by (simp add: ip_base_eq format_base)
  ultimately show ?thesis by blast
qed

theorem ip_base_reply_witness:
  "filter is_send (fst (ip_base (sample_env (Inr [''ip'' \<mapsto> ''8.8.8.8'']) chat_42 None)
       \<lparr>whole = ''/ip 8.8.8.8'', groups = [Some ''/ip 8.8.8.8'', Some ''8.8.8.8'']\<rparr> ''8.8.8.8'')) =
     [Send_to_chat ''sendMessage''
        [(''text'', ''\<newline>*8.8.8.8*\<newline>\<newline>*Hostname*: \<newline>*Network*: \<newline>*Country*: \<newline>*City*: \<newline>*Latitude/Longitude*: \<newline>''),
         (''parse_mode'', ''Markdown'')]]"
proof -
  let ?m = "\<lparr>whole = ''/ip 8.8.8.8'', groups = [Some ''/ip 8.8.8.8'', Some ''8.8.8.8'']\<rparr>"
  let ?w = "sample_env (Inr [''ip'' \<mapsto> ''8.8.8.8'']) chat_42 None"
  have 1: "client_get ?w (IPINFO @ str_ip ?w ''8.8.8.8'' @ ''/json'') = Inr [''ip'' \<mapsto> ''8.8.8.8'']"
    by (simp add: sample_env_def)
  have 2: "[''ip'' \<mapsto> ''8.8.8.8''] ''ip'' = Some ''8.8.8.8''"
    by simp
  from ip_base_reply [OF 1 2, of ?m] show ?thesis
    by simp
qed

theorem ip_base_reply_counterexample:
  "ip_base (sample_env (Inr Map.empty) chat_42 None)
       \<lparr>whole = ''/ip 8.8.8.8'', groups = [Some ''/ip 8.8.8.8'', Some ''8.8.8.8'']\<rparr> ''8.8.8.8'' =
     ([Get ''https://ipinfo.io/8.8.8.8/json''], Inl (KeyError ''ip''))"
  by (simp add: ip_base_eq format_base sample_env_def IPINFO_def)

subsection \<open>Validation of the argument\<close>

text \<open>
  Claim C2. For an argument that is not empty and that \<open>ipaddress.ip_address\<close> rejects,
  the decorated handler, whatever the method it decorates, makes one call, the reply
  \<open>"<raw>" is not valid ipv4 or ipv6 address\<close> with the argument as it was given, and
  returns: the method contributes nothing, so it was not called.
\<close>

theorem check_ip_invalid_address:
  assumes "group m 2 = Inr (Some raw)" and "raw \<noteq> []" and "ip_address w raw = None"
  shows \<open>check_ip decorated w m = ([Reply (''"'' @ raw @ ''" is not valid ipv4 or ipv6 address'')], Inr ())\<close>
  using assms by (simp add: check_ip_rejected invalid_text_def)

theorem check_ip_invalid_address_witness:
  \<open>group \<lparr>whole = ''/ip 256.1.1.1'', groups = [Some ''/ip 256.1.1.1'', Some ''256.1.1.1'']\<rparr> 2 =
     Inr (Some ''256.1.1.1'') \<and>
   ip_address (sample_env (Inl ClientError) chat_42 None) ''256.1.1.1'' = None \<and>
   check_ip ip_base (sample_env (Inl ClientError) chat_42 None)
       \<lparr>whole = ''/ip 256.1.1.1'', groups = [Some ''/ip 256.1.1.1'', Some ''256.1.1.1'']\<rparr> =
     ([Reply ''"256.1.1.1" is not valid ipv4 or ipv6 address''], Inr ())\<close>
proof -
  let ?m = "\<lparr>whole = ''/ip 256.1.1.1'', groups = [Some ''/ip 256.1.1.1'', Some ''256.1.1.1'']\<rparr>"
  let ?w = "sample_env (Inl ClientError) chat_42 None"
  have 1: "group ?m 2 = Inr (Some ''256.1.1.1'')"
    by (simp add: group_def)
  have 2: "''256.1.1.1'' \<noteq> []"
    by simp
  have 3: "ip_address ?w ''256.1.1.1'' = None"
    by (simp add: sample_env_def dotted_quad_def octet_ok_def split_def)
  from 1 3 check_ip_invalid_address [OF 1 2 3, of ip_base] show ?thesis
    by simp
qed

text \<open>
  Claim C5. For an absent or empty argument the decorated handler, whatever the method it
  decorates, makes one call, the message that asks for a valid ipv4 or ipv6 address and
  points to \<open>/help\<close>, and returns: the method was not called.
\<close>

theorem check_ip_missing_argument:
  assumes "group m 2 = Inr None \<or> group m 2 = Inr (Some [])"
  shows "check_ip decorated w m =
    ([Send_to_chat ''sendMessage''
        [(''text'', ''Please provide a valid ipv4 or ipv6 address for this command. Use /help command for examples.''),
         (''parse_mode'', ''Markdown'')]],
     Inr ())"
  using check_ip_missing [OF assms] by (simp add: missing_text_def)

theorem check_ip_missing_argument_witness:
  "group \<lparr>whole = ''/ip'', groups = [Some ''/ip'', None]\<rparr> 2 = Inr None \<and>
   check_ip ip_base (sample_env (Inl ClientError) chat_42 (Some ''token''))
       \<lparr>whole = ''/ip'', groups = [Some ''/ip'', None]\<rparr> =
     ([Send_to_chat ''sendMessage''
         [(''text'', ''Please provide a valid ipv4 or ipv6 address for this command. Use /help command for examples.''),
          (''parse_mode'', ''Markdown'')]],
      Inr ()) \<and>
   group \<lparr>whole = ''/geo'', groups = [Some ''/geo'', Some []]\<rparr> 2 = Inr (Some []) \<and>
   check_ip ip_geo (sample_env (Inl ClientError) chat_42 (Some ''token''))
       \<lparr>whole = ''/geo'', groups = [Some ''/geo'', Some []]\<rparr> =
     ([Send_to_chat ''sendMessage''
         [(''text'', ''Please provide a valid ipv4 or ipv6 address for this command. Use /help command for examples.''),
          (''parse_mode'', ''Markdown'')]],
      Inr ())"
proof -
  let ?m1 = "\<lparr>whole = ''/ip'', groups = [Some ''/ip'', None]\<rparr>"
  let ?m2 = "\<lparr>whole = ''/geo'', groups = [Some ''/geo'', Some []]\<rparr>"
  let ?w = "sample_env (Inl ClientError) chat_42 (Some ''token'')"
  have 1: "group ?m1 2 = Inr None"
    by (simp add: group_def)
  have 2: "group ?m2 2 = Inr (Some [])"
    by (simp add: group_def)
  from 1 have 3: "group ?m1 2 = Inr None \<or> group ?m1 2 = Inr (Some [])" ..
  from 2 have 4: "group ?m2 2 = Inr None \<or> group ?m2 2 = Inr (Some [])" ..
  from 1 2 check_ip_missing_argument [OF 3, where decorated = ip_base and w = ?w]
    check_ip_missing_argument [OF 4, where decorated = ip_geo and w = ?w]
  show ?thesis by simp
qed

text \<open>
  Claim C6. For an argument that is not empty and that \<open>ipaddress.ip_address\<close> parses to
  \<open>addr\<close>, the decorated handler does what the method does on \<open>addr\<close>, with no call of
  its own before it (a \<open>ValueError\<close> leaving the method is the one thing it adds to: it
  is answered by the reply for an invalid address). The first call of the decorated
  \<open>ip_base\<close> and \<open>ip_geo\<close> is the lookup of the URL built from \<open>str\<close> of \<open>addr\<close>.
\<close>

theorem check_ip_valid_address:
  assumes "group m 2 = Inr (Some raw)" and "raw \<noteq> []" and "ip_address w raw = Some addr"
  shows
    "check_ip decorated w m =
       (case decorated w m addr of
          (tr, Inl ValueError) \<Rightarrow> (tr @ [Reply (invalid_text raw)], Inr ())
        | (tr, r) \<Rightarrow> (tr, r)) \<and>
     take 1 (fst (check_ip ip_base w m)) = [Get (''https://ipinfo.io/'' @ str_ip w addr @ ''/json'')] \<and>
     take 1 (fst (check_ip ip_geo w m)) = [Get (''https://ipinfo.io/'' @ str_ip w addr @ ''/geo'')]"
proof -
  note acc = check_ip_accepted [OF assms]
  have "take 1 (fst (check_ip ip_base w m)) = [Get (''https://ipinfo.io/'' @ str_ip w addr @ ''/json'')]"
    by (simp add: acc [of ip_base] ip_base_eq IPINFO_def split: sum.splits py_error.splits)
  moreover
  have "take 1 (fst (check_ip ip_geo w m)) = [Get (''https://ipinfo.io/'' @ str_ip w addr @ ''/geo'')]"
    by (simp add: acc [of ip_geo] ip_geo_eq IPINFO_def split: sum.splits py_error.splits prod.splits)
  ultimately show ?thesis using acc [of decorated] by simp
qed

theorem check_ip_valid_address_witness:
  "ip_address (sample_env (Inr [''ip'' \<mapsto> ''8.8.8.8'']) chat_42 (Some ''token'')) ''8.8.8.8'' = Some ''8.8.8.8'' \<and>
   check_ip ip_base (sample_env (Inr [''ip'' \<mapsto> ''8.8.8.8'']) chat_42 (Some ''token''))
       \<lparr>whole = ''/ip 8.8.8.8'', groups = [Some ''/ip 8.8.8.8'', Some ''8.8.8.8'']\<rparr> =
     ip_base (sample_env (Inr [''ip'' \<mapsto> ''8.8.8.8'']) chat_42 (Some ''token''))
       \<lparr>whole = ''/ip 8.8.8.8'', groups = [Some ''/ip 8.8.8.8'', Some ''8.8.8.8'']\<rparr> ''8.8.8.8'' \<and>
   take 1 (fst (check_ip ip_base (sample_env (Inr [''ip'' \<mapsto> ''8.8.8.8'']) chat_42 (Some ''token''))
       \<lparr>whole = ''/ip 8.8.8.8'', groups = [Some ''/ip 8.8.8.8'', Some ''8.8.8.8'']\<rparr>)) =
     [Get ''https://ipinfo.io/8.8.8.8/json'']"
proof -
  let ?m = "\<lparr>whole = ''/ip 8.8.8.8'', groups = [Some ''/ip 8.8.8.8'', Some ''8.8.8.8'']\<rparr>"
  let ?w = "sample_env (Inr [''ip'' \<mapsto> ''8.8.8.8'']) chat_42 (Some ''token'')"
  have 1: "group ?m 2 = Inr (Some ''8.8.8.8'')"
    by (simp add: group_def)
  have 2: "''8.8.8.8'' \<noteq> []"
    by simp
  have 3: "ip_address ?w ''8.8.8.8'' = Some ''8.8.8.8''"
    by (simp add: sample_env_def dotted_quad_def octet_ok_def split_def)
  have 4: "str_ip ?w ''8.8.8.8'' = ''8.8.8.8''"
    by (simp add: sample_env_def)
  have 5: "snd (ip_base ?w ?m ''8.8.8.8'') = Inr ()"
    by (simp add: ip_base_eq format_base sample_env_def)
  from check_ip_valid_address [OF 1 2 3, of ip_base] have
    "check_ip ip_base ?w ?m = ip_base ?w ?m ''8.8.8.8''"
    using 5 by (cases "ip_base ?w ?m ''8.8.8.8''") simp
  with 3 4 check_ip_valid_address [OF 1 2 3, of ip_base] show ?thesis
    by simp
qed

text \<open>
  Claim C7. When the argument of \<open>/ip\<close> or \<open>/geo\<close> is absent, empty or rejected by
  the parser, the decorated handler sends exactly one message, makes no lookup and no
  tracking call, and returns normally. A tracking call of the decorated \<open>ip_base\<close> carries
  the label \<open>Ip\<close>, one of the decorated \<open>ip_geo\<close> the label \<open>Ip_Geo\<close>, and either happens
  only for an argument that is not empty and that the parser accepts.
\<close>

theorem validation_failure_is_local:
  "(\<forall>arg. group m 2 = Inr arg \<and>
      (arg = None \<or> arg = Some [] \<or> (\<exists>raw. arg = Some raw \<and> ip_address w raw = None)) \<longrightarrow>
      length (filter is_send (fst (check_ip ip_base w m))) = 1 \<and>
      filter is_lookup (fst (check_ip ip_base w m)) = [] \<and>
      filter is_track (fst (check_ip ip_base w m)) = [] \<and>
      snd (check_ip ip_base w m) = Inr () \<and>
      length (filter is_send (fst (check_ip ip_geo w m))) = 1 \<and>
      filter is_lookup (fst (check_ip ip_geo w m)) = [] \<and>
      filter is_track (fst (check_ip ip_geo w m)) = [] \<and>
      snd (check_ip ip_geo w m) = Inr ()) \<and>
   (\<forall>uid label. Track uid label \<in> set (fst (check_ip ip_base w m)) \<longrightarrow>
      label = ''Ip'' \<and>
      (\<exists>raw addr. group m 2 = Inr (Some raw) \<and> raw \<noteq> [] \<and> ip_address w raw = Some addr)) \<and>
   (\<forall>uid label. Track uid label \<in> set (fst (check_ip ip_geo w m)) \<longrightarrow>
      label = ''Ip_Geo'' \<and>
      (\<exists>raw addr. group m 2 = Inr (Some raw) \<and> raw \<noteq> [] \<and> ip_address w raw = Some addr))"
proof -
  have fail: "length (filter is_send (fst (check_ip decorated w m))) = 1 \<and>
        filter is_lookup (fst (check_ip decorated w m)) = [] \<and>
        filter is_track (fst (check_ip decorated w m)) = [] \<and>
        snd (check_ip decorated w m) = Inr ()"
    if g: "group m 2 = Inr arg"
      and a: "arg = None \<or> arg = Some [] \<or> (\<exists>raw. arg = Some raw \<and> ip_address w raw = None)"
    for arg and decorated :: "'a env \<Rightarrow> match \<Rightarrow> 'a \<Rightarrow> unit io"
  proof (cases "arg = None \<or> arg = Some []")
    case True
    with g have "group m 2 = Inr None \<or> group m 2 = Inr (Some [])" by auto
    then show ?thesis by (simp add: check_ip_missing)
  next
    case False
    with a obtain raw where "arg = Some raw" "raw \<noteq> []" "ip_address w raw = None" by auto
    with g show ?thesis by (simp add: check_ip_rejected)
  qed
  have base: "label = ''Ip'' \<and>
        (\<exists>raw addr. group m 2 = Inr (Some raw) \<and> raw \<noteq> [] \<and> ip_address w raw = Some addr)"
    if "Track uid label \<in> set (fst (check_ip ip_base w m))" for uid label
    using check_ip_track [OF that] by (blast dest: ip_base_track)
  have geo: "label = ''Ip_Geo'' \<and>
        (\<exists>raw addr. group m 2 = Inr (Some raw) \<and> raw \<noteq> [] \<and> ip_address w raw = Some addr)"
    if "Track uid label \<in> set (fst (check_ip ip_geo w m))" for uid label
    using check_ip_track [OF that] by (blast dest: ip_geo_track)
  from fail [where decorated = ip_base] fail [where decorated = ip_geo] base geo show ?thesis
    by blast
qed

theorem validation_failure_is_local_witness:
  "ip_address (sample_env (Inr [''ip'' \<mapsto> ''8.8.8.8'']) chat_42 (Some ''token'')) ''not-an-ip'' = None \<and>
   length (filter is_send (fst (check_ip ip_base (sample_env (Inr [''ip'' \<mapsto> ''8.8.8.8'']) chat_42 (Some ''token''))
       \<lparr>whole = ''/ip not-an-ip'', groups = [Some ''/ip not-an-ip'', Some ''not-an-ip'']\<rparr>))) = 1 \<and>
   filter is_lookup (fst (check_ip ip_base (sample_env (Inr [''ip'' \<mapsto> ''8.8.8.8'']) chat_42 (Some ''token''))
       \<lparr>whole = ''/ip not-an-ip'', groups = [Some ''/ip not-an-ip'', Some ''not-an-ip'']\<rparr>)) = [] \<and>
   filter is_track (fst (check_ip ip_base (sample_env (Inr [''ip'' \<mapsto> ''8.8.8.8'']) chat_42 (Some ''token''))
       \<lparr>whole = ''/ip not-an-ip'', groups = [Some ''/ip not-an-ip'', Some ''not-an-ip'']\<rparr>)) = [] \<and>
   snd (check_ip ip_base (sample_env (Inr [''ip'' \<mapsto> ''8.8.8.8'']) chat_42 (Some ''token''))
       \<lparr>whole = ''/ip not-an-ip'', groups = [Some ''/ip not-an-ip'', Some ''not-an-ip'']\<rparr>) = Inr ()"
proof -
  let ?m = "\<lparr>whole = ''/ip not-an-ip'', groups = [Some ''/ip not-an-ip'', Some ''not-an-ip'']\<rparr>"
  let ?w = "sample_env (Inr [''ip'' \<mapsto> ''8.8.8.8'']) chat_42 (Some ''token'')"
  have 1: "group ?m 2 = Inr (Some ''not-an-ip'')"
    by (simp add: group_def)
  have 2: "ip_address ?w ''not-an-ip'' = None"
    by (simp add: sample_env_def dotted_quad_def split_def)
  from 1 2 have "group ?m 2 = Inr (Some ''not-an-ip'') \<and>
      (Some ''not-an-ip'' = None \<or> Some ''not-an-ip'' = Some [] \<or>
       (\<exists>raw. Some ''not-an-ip'' = Some raw \<and> ip_address ?w raw = None))"
    by simp
  with validation_failure_is_local [of ?m ?w] have
    "length (filter is_send (fst (check_ip ip_base ?w ?m))) = 1 \<and>
     filter is_lookup (fst (check_ip ip_base ?w ?m)) = [] \<and>
     filter is_track (fst (check_ip ip_base ?w ?m)) = [] \<and>
     snd (check_ip ip_base ?w ?m) = Inr ()"
    by blast
  with 2 show ?thesis by blast
qed

subsection \<open>Greeting, help and usage tracking\<close>

text \<open>
  Claim C8. The handler of \<open>/start\<close>, \<open>greeting\<close>, sends the constant \<open>HELP\<close> (``This bot
  allows you to ...'') and makes no tracking call; the handler of \<open>/help\<close> sends the
  constant \<open>GREETING\<close> (``Hi! I'm ipinfo.io bot ...'') and then calls \<open>track_message\<close>
  with the label \<open>Help\<close>, which tracks under that label when a token is configured and
  the answer of the send carries a chat id. The table binds \<open>/start\<close> to \<open>greeting\<close> and
  \<open>/help\<close> to \<open>help_cmd\<close>: on the message \<open>/start\<close> only the first pattern matches and
  the router runs \<open>greeting\<close>, so the user gets \<open>HELP\<close>; on \<open>/help\<close> only the second
  matches and the router runs \<open>help_cmd\<close>, so the user gets \<open>GREETING\<close>.
\<close>

theorem start_and_help_bodies:
  "greeting w m = ([Send_to_chat ''sendMessage'' [(''text'', HELP), (''parse_mode'', ''Markdown'')]], Inr ()) \<and>
   help_cmd w m =
     (Send_to_chat ''sendMessage'' [(''text'', GREETING), (''parse_mode'', ''Markdown'')] #
        fst (track_message w
          (chat_response w ''sendMessage'' [(''text'', GREETING), (''parse_mode'', ''Markdown'')]) ''Help''),
      Inr ()) \<and>
   (\<forall>token uid. botan_token w = Some token \<and> token \<noteq> [] \<and> uid \<noteq> 0 \<and>
      get_uid (chat_response w ''sendMessage'' [(''text'', GREETING), (''parse_mode'', ''Markdown'')]) = Some uid \<longrightarrow>
      help_cmd w m =
        ([Send_to_chat ''sendMessage'' [(''text'', GREETING), (''parse_mode'', ''Markdown'')],
          Track uid ''Help''], Inr ())) \<and>
   filter is_track (fst (greeting w m)) = [] \<and>
   take 8 HELP = ''This bot'' \<and> take 3 GREETING = ''Hi!'' \<and>
   (commands :: (regex \<times> ('a env \<Rightarrow> match \<Rightarrow> unit io)) list) ! 0 = (Lit ''/start'', greeting) \<and>
   (commands :: (regex \<times> ('a env \<Rightarrow> match \<Rightarrow> unit io)) list) ! 1 = (Lit ''/help'', help_cmd) \<and>
   map (\<lambda>p. re_match p ''/start'') (map fst (commands :: (regex \<times> ('a env \<Rightarrow> match \<Rightarrow> unit io)) list)) =
     [Some \<lparr>whole = ''/start'', groups = []\<rparr>, None, None, None, None] \<and>
   dispatch commands w ''/start'' = greeting w \<lparr>whole = ''/start'', groups = []\<rparr> \<and>
   dispatch commands w ''/start'' =
     ([Send_to_chat ''sendMessage'' [(''text'', HELP), (''parse_mode'', ''Markdown'')]], Inr ()) \<and>
   map (\<lambda>p. re_match p ''/help'') (map fst (commands :: (regex \<times> ('a env \<Rightarrow> match \<Rightarrow> unit io)) list)) =
     [None, Some \<lparr>whole = ''/help'', groups = []\<rparr>, None, None, None] \<and>
   dispatch commands w ''/help'' = help_cmd w \<lparr>whole = ''/help'', groups = []\<rparr> \<and>
   dispatch commands w ''/help'' =
     (Send_to_chat ''sendMessage'' [(''text'', GREETING), (''parse_mode'', ''Markdown'')] #
        fst (track_message w
          (chat_response w ''sendMessage'' [(''text'', GREETING), (''parse_mode'', ''Markdown'')]) ''Help''),
      Inr ())"
proof -
  have bodies:
    "greeting w m = ([Send_to_chat ''sendMessage'' [(''text'', HELP), (''parse_mode'', ''Markdown'')]], Inr ()) \<and>
     help_cmd w m =
       (Send_to_chat ''sendMessage'' [(''text'', GREETING), (''parse_mode'', ''Markdown'')] #
          fst (track_message w
            (chat_response w ''sendMessage'' [(''text'', GREETING), (''parse_mode'', ''Markdown'')]) ''Help''),
        Inr ()) \<and>
     (\<forall>token uid. botan_token w = Some token \<and> token \<noteq> [] \<and> uid \<noteq> 0 \<and>
        get_uid (chat_response w ''sendMessage'' [(''text'', GREETING), (''parse_mode'', ''Markdown'')]) = Some uid \<longrightarrow>
        help_cmd w m =
          ([Send_to_chat ''sendMessage'' [(''text'', GREETING), (''parse_mode'', ''Markdown'')],
            Track uid ''Help''], Inr ())) \<and>
     filter is_track (fst (greeting w m)) = [] \<and>
     take 8 HELP = ''This bot'' \<and> take 3 GREETING = ''Hi!''"
    by (simp add: greeting_def help_cmd_def await_def send_to_chat_def return_def track_message_eq
          HELP_def GREETING_def)
  have entry_start:
    "(commands :: (regex \<times> ('a env \<Rightarrow> match \<Rightarrow> unit io)) list) ! 0 = (Lit ''/start'', greeting)"
    by (simp add: commands_def)
  have entry_help:
    "(commands :: (regex \<times> ('a env \<Rightarrow> match \<Rightarrow> unit io)) list) ! 1 = (Lit ''/help'', help_cmd)"
    by (simp add: commands_def)
  have start_match:
    "map (\<lambda>p. re_match p ''/start'') (map fst (commands :: (regex \<times> ('a env \<Rightarrow> match \<Rightarrow> unit io)) list)) =
       [Some \<lparr>whole = ''/start'', groups = []\<rparr>, None, None, None, None]"
    by (simp add: commands_def re_match_def)
  have help_match:
    "map (\<lambda>p. re_match p ''/help'') (map fst (commands :: (regex \<times> ('a env \<Rightarrow> match \<Rightarrow> unit io)) list)) =
       [None, Some \<lparr>whole = ''/help'', groups = []\<rparr>, None, None, None]"
    by (simp add: commands_def re_match_def)
  have start_handler: "dispatch commands w ''/start'' = greeting w \<lparr>whole = ''/start'', groups = []\<rparr>"
    by (simp add: commands_def re_match_def)
  have help_handler: "dispatch commands w ''/help'' = help_cmd w \<lparr>whole = ''/help'', groups = []\<rparr>"
    by (simp add: commands_def re_match_def)
  have start_reply: "dispatch commands w ''/start'' =
      ([Send_to_chat ''sendMessage'' [(''text'', HELP), (''parse_mode'', ''Markdown'')]], Inr ())"
    by (simp only: start_handler) (simp add: greeting_def await_def send_to_chat_def return_def)
  have help_reply: "dispatch commands w ''/help'' =
      (Send_to_chat ''sendMessage'' [(''text'', GREETING), (''parse_mode'', ''Markdown'')] #
         fst (track_message w
           (chat_response w ''sendMessage'' [(''text'', GREETING), (''parse_mode'', ''Markdown'')]) ''Help''),
       Inr ())"
    by (simp only: help_handler) (simp add: help_cmd_def await_def send_to_chat_def track_message_eq)
  from bodies have
    b1: "greeting w m = ([Send_to_chat ''sendMessage'' [(''text'', HELP), (''parse_mode'', ''Markdown'')]], Inr ())"
    and b2: "help_cmd w m =
       (Send_to_chat ''sendMessage'' [(''text'', GREETING), (''parse_mode'', ''Markdown'')] #
          fst (track_message w
            (chat_response w ''sendMessage'' [(''text'', GREETING), (''parse_mode'', ''Markdown'')]) ''Help''),
        Inr ())"
    and b3: "\<forall>token uid. botan_token w = Some token \<and> token \<noteq> [] \<and> uid \<noteq> 0 \<and>
        get_uid (chat_response w ''sendMessage'' [(''text'', GREETING), (''parse_mode'', ''Markdown'')]) = Some uid \<longrightarrow>
        help_cmd w m =
          ([Send_to_chat ''sendMessage'' [(''text'', GREETING), (''parse_mode'', ''Markdown'')],
            Track uid ''Help''], Inr ())"
    and b4: "filter is_track (fst (greeting w m)) = []"
    and b5: "take 8 HELP = ''This bot''"
    and b6: "take 3 GREETING = ''Hi!''"
    by blast+
  show ?thesis
    by (intro conjI)
       (rule b1 b2 b3 b4 b5 b6 entry_start entry_help start_match start_handler start_reply help_match help_handler help_reply)+
qed

theorem start_and_help_bodies_witness:
  "greeting (sample_env (Inl ClientError) chat_42 (Some ''token'')) \<lparr>whole = ''/start'', groups = []\<rparr> =
     ([Send_to_chat ''sendMessage'' [(''text'', HELP), (''parse_mode'', ''Markdown'')]], Inr ()) \<and>
   help_cmd (sample_env (Inl ClientError) chat_42 (Some ''token'')) \<lparr>whole = ''/help'', groups = []\<rparr> =
     ([Send_to_chat ''sendMessage'' [(''text'', GREETING), (''parse_mode'', ''Markdown'')],
       Track 42 ''Help''], Inr ()) \<and>
   dispatch commands (sample_env (Inl ClientError) chat_42 (Some ''token'')) ''/start'' =
     ([Send_to_chat ''sendMessage'' [(''text'', HELP), (''parse_mode'', ''Markdown'')]], Inr ()) \<and>
   dispatch commands (sample_env (Inl ClientError) chat_42 (Some ''token'')) ''/help'' =
     ([Send_to_chat ''sendMessage'' [(''text'', GREETING), (''parse_mode'', ''Markdown'')],
       Track 42 ''Help''], Inr ())"
proof -
  let ?w = "sample_env (Inl ClientError) chat_42 (Some ''token'')"
  let ?s = "\<lparr>whole = ''/start'', groups = []\<rparr>"
  let ?h = "\<lparr>whole = ''/help'', groups = []\<rparr>"
  have 1: "botan_token ?w = Some ''token'' \<and> ''token'' \<noteq> [] \<and> (42::int) \<noteq> 0 \<and>
      get_uid (chat_response ?w ''sendMessage'' [(''text'', GREETING), (''parse_mode'', ''Markdown'')]) = Some 42"
    by (simp add: sample_env_def chat_42_def get_uid_def)
  from 1 start_and_help_bodies [of ?w ?h]
  have h: "help_cmd ?w ?h =
      ([Send_to_chat ''sendMessage'' [(''text'', GREETING), (''parse_mode'', ''Markdown'')],
        Track 42 ''Help''], Inr ())"
    by blast
  from start_and_help_bodies [of ?w ?s]
  have s: "greeting ?w ?s =
      ([Send_to_chat ''sendMessage'' [(''text'', HELP), (''parse_mode'', ''Markdown'')]], Inr ())"
    and ds: "dispatch commands ?w ''/start'' =
      ([Send_to_chat ''sendMessage'' [(''text'', HELP), (''parse_mode'', ''Markdown'')]], Inr ())"
    and dh: "dispatch commands ?w ''/help'' = help_cmd ?w ?h"
    by blast+
  from s h ds dh show ?thesis by simp
qed

text \<open>
  Claim C10. \<open>track_message\<close> makes a tracking call only when \<open>botan_token\<close> is set to a
  string that is not empty and a chat id is found in the answer of the send; without a
  token or without an id it makes no call; in every case it sends nothing, looks nothing
  up and returns normally.
\<close>

theorem track_message_gated:
  "(fst (track_message w message name) \<noteq> [] \<longrightarrow>
      (\<exists>token uid. botan_token w = Some token \<and> token \<noteq> [] \<and> get_uid message = Some uid \<and>
         fst (track_message w message name) = [Track uid name])) \<and>
   (botan_token w = None \<or> botan_token w = Some [] \<or> get_uid message = None \<longrightarrow>
      fst (track_message w message name) = []) \<and>
   filter is_send (fst (track_message w message name)) = [] \<and>
   filter is_lookup (fst (track_message w message name)) = [] \<and>
   snd (track_message w message name) = Inr ()"
  by (cases "botan_token w") (auto simp: track_message_eq split: option.splits)

theorem track_message_gated_witness:
  "track_message (sample_env (Inl ClientError) chat_42 None) chat_42 ''Ip'' = ([], Inr ()) \<and>
   track_message (sample_env (Inl ClientError) chat_42 (Some ''token'')) (Response None) ''Ip'' = ([], Inr ()) \<and>
   track_message (sample_env (Inl ClientError) chat_42 (Some ''token'')) chat_42 ''Ip'' = ([Track 42 ''Ip''], Inr ())"
proof -
  let ?w0 = "sample_env (Inl ClientError) chat_42 None"
  let ?w1 = "sample_env (Inl ClientError) chat_42 (Some ''token'')"
  have 1: "botan_token ?w0 = None"
    by (simp add: sample_env_def)
  have 2: "get_uid (Response None) = None"
    by (simp add: get_uid_def)
  have 3: "fst (track_message ?w1 chat_42 ''Ip'') \<noteq> []"
    by (simp add: track_message_def sample_env_def chat_42_def get_uid_def track_def)
  have 4: "get_uid chat_42 = Some 42"
    by (simp add: chat_42_def get_uid_def)
  from 1 track_message_gated [of ?w0 chat_42 "''Ip''"]
  have a: "track_message ?w0 chat_42 ''Ip'' = ([], Inr ())"
    by (simp add: prod_eq_iff)
  from 2 track_message_gated [of ?w1 "Response None" "''Ip''"]
  have b: "track_message ?w1 (Response None) ''Ip'' = ([], Inr ())"
    by (simp add: prod_eq_iff)
  from 3 4 track_message_gated [of ?w1 chat_42 "''Ip''"]
  have c: "track_message ?w1 chat_42 ''Ip'' = ([Track 42 ''Ip''], Inr ())"
    by (auto simp: prod_eq_iff)
  from a b c show ?thesis by blast
qed

subsection \<open>The router\<close>

lemma dispatch_find:
  "dispatch cmds w text =
     (case find (\<lambda>(pattern, handler). re_match pattern text \<noteq> None) cmds of
        None \<Rightarrow> ([], Inr ())
      | Some (pattern, handler) \<Rightarrow>
          (case re_match pattern text of None \<Rightarrow> ([], Inr ()) | Some m \<Rightarrow> handler w m))"
  by (induction cmds) (auto simp: return_def split: option.splits)

lemma re_match_ip_arg:
  "map (\<lambda>p. re_match p ''/ip 8.8.8.8'') (map fst commands) =
     [None, None, None,
      Some \<lparr>whole = ''/ip 8.8.8.8'', groups = [Some ''/ip 8.8.8.8'', Some ''8.8.8.8'']\<rparr>, None]"
  by (simp add: commands_def re_match_def)

lemma re_match_geo_bare:
  "map (\<lambda>p. re_match p ''/geo'') (map fst commands) =
     [None, None, None, None, Some \<lparr>whole = ''/geo'', groups = [Some ''/geo'', None]\<rparr>]"
  by (simp add: commands_def re_match_def)

text \<open>
  Claim C4. The patterns of the table are, in this order, \<open>/start\<close>, \<open>/help\<close>, \<open>/ping\<close>,
  \<open>/ip [arg]\<close> and \<open>/geo [arg]\<close>, and the router calls the handler of the first pattern
  that matches and no other. On \<open>/ip 8.8.8.8\<close> only the pattern of \<open>/ip\<close> matches and
  the decorated \<open>ip_base\<close> runs with group 2 equal to \<open>8.8.8.8\<close>; on \<open>/geo\<close> only the
  pattern of \<open>/geo\<close> matches and the decorated \<open>ip_geo\<close> runs with group 2 absent, which
  ends in the message for a missing argument.
\<close>

theorem router_first_match:
  "map fst (commands :: (regex \<times> ('a env \<Rightarrow> match \<Rightarrow> unit io)) list) =
     [Lit ''/start'', Lit ''/help'', Lit ''/ping'',
      Grp 1 (Alt (Cat (Lit ''/ip '') (Grp 2 Dot_plus)) (Lit ''/ip'')),
      Grp 1 (Alt (Cat (Lit ''/geo '') (Grp 2 Dot_plus)) (Lit ''/geo''))] \<and>
   dispatch cmds w text =
     (case find (\<lambda>(pattern, handler). re_match pattern text \<noteq> None) cmds of
        None \<Rightarrow> ([], Inr ())
      | Some (pattern, handler) \<Rightarrow>
          (case re_match pattern text of None \<Rightarrow> ([], Inr ()) | Some m \<Rightarrow> handler w m)) \<and>
   map (\<lambda>p. re_match p ''/ip 8.8.8.8'') (map fst (commands :: (regex \<times> ('a env \<Rightarrow> match \<Rightarrow> unit io)) list)) =
     [None, None, None,
      Some \<lparr>whole = ''/ip 8.8.8.8'', groups = [Some ''/ip 8.8.8.8'', Some ''8.8.8.8'']\<rparr>, None] \<and>
   dispatch commands w ''/ip 8.8.8.8'' =
     check_ip ip_base w \<lparr>whole = ''/ip 8.8.8.8'', groups = [Some ''/ip 8.8.8.8'', Some ''8.8.8.8'']\<rparr> \<and>
   group \<lparr>whole = ''/ip 8.8.8.8'', groups = [Some ''/ip 8.8.8.8'', Some ''8.8.8.8'']\<rparr> 2 = Inr (Some ''8.8.8.8'') \<and>
   map (\<lambda>p. re_match p ''/geo'') (map fst (commands :: (regex \<times> ('a env \<Rightarrow> match \<Rightarrow> unit io)) list)) =
     [None, None, None, None, Some \<lparr>whole = ''/geo'', groups = [Some ''/geo'', None]\<rparr>] \<and>
   dispatch commands w ''/geo'' = check_ip ip_geo w \<lparr>whole = ''/geo'', groups = [Some ''/geo'', None]\<rparr> \<and>
   group \<lparr>whole = ''/geo'', groups = [Some ''/geo'', None]\<rparr> 2 = Inr None \<and>
   dispatch commands w ''/geo'' =
     ([Send_to_chat ''sendMessage''
         [(''text'', ''Please provide a valid ipv4 or ipv6 address for this command. Use /help command for examples.''),
          (''parse_mode'', ''Markdown'')]],
      Inr ())"
proof -
  have 1: "map fst (commands :: (regex \<times> ('a env \<Rightarrow> match \<Rightarrow> unit io)) list) =
     [Lit ''/start'', Lit ''/help'', Lit ''/ping'',
      Grp 1 (Alt (Cat (Lit ''/ip '') (Grp 2 Dot_plus)) (Lit ''/ip'')),
      Grp 1 (Alt (Cat (Lit ''/geo '') (Grp 2 Dot_plus)) (Lit ''/geo''))]"
    by (simp add: commands_def)
  have 2: "dispatch commands w ''/ip 8.8.8.8'' =
     check_ip ip_base w \<lparr>whole = ''/ip 8.8.8.8'', groups = [Some ''/ip 8.8.8.8'', Some ''8.8.8.8'']\<rparr>"
    using re_match_ip_arg by (simp add: commands_def)
  have 3: "dispatch commands w ''/geo'' = check_ip ip_geo w \<lparr>whole = ''/geo'', groups = [Some ''/geo'', None]\<rparr>"
    using re_match_geo_bare by (simp add: commands_def)
  have 4: "group \<lparr>whole = ''/ip 8.8.8.8'', groups = [Some ''/ip 8.8.8.8'', Some ''8.8.8.8'']\<rparr> 2 = Inr (Some ''8.8.8.8'')"
    by (simp add: group_def)
  have 5: "group \<lparr>whole = ''/geo'', groups = [Some ''/geo'', None]\<rparr> 2 = Inr None"
    by (simp add: group_def)
  have 6: "check_ip ip_geo w \<lparr>whole = ''/geo'', groups = [Some ''/geo'', None]\<rparr> =
     ([Send_to_chat ''sendMessage''
         [(''text'', ''Please provide a valid ipv4 or ipv6 address for this command. Use /help command for examples.''),
          (''parse_mode'', ''Markdown'')]],
      Inr ())"
    using 5 by (simp add: check_ip_missing missing_text_def)
  from 3 6 have 7: "dispatch commands w ''/geo'' =
     ([Send_to_chat ''sendMessage''
         [(''text'', ''Please provide a valid ipv4 or ipv6 address for this command. Use /help command for examples.''),
          (''parse_mode'', ''Markdown'')]],
      Inr ())"
    by simp
  show ?thesis
    by (intro conjI) (rule 1 dispatch_find re_match_ip_arg 2 4 re_match_geo_bare 3 5 7)+
qed

theorem router_first_match_witness:
  "dispatch commands (sample_env (Inr [''ip'' \<mapsto> ''8.8.8.8'']) chat_42 (Some ''token'')) ''/geo'' =
     ([Send_to_chat ''sendMessage''
         [(''text'', ''Please provide a valid ipv4 or ipv6 address for this command. Use /help command for examples.''),
          (''parse_mode'', ''Markdown'')]],
      Inr ()) \<and>
   dispatch commands (sample_env (Inr [''ip'' \<mapsto> ''8.8.8.8'']) chat_42 (Some ''token'')) ''/ip 8.8.8.8'' =
     check_ip ip_base (sample_env (Inr [''ip'' \<mapsto> ''8.8.8.8'']) chat_42 (Some ''token''))
       \<lparr>whole = ''/ip 8.8.8.8'', groups = [Some ''/ip 8.8.8.8'', Some ''8.8.8.8'']\<rparr>"
  using router_first_match [of "[]" "sample_env (Inr [''ip'' \<mapsto> ''8.8.8.8'']) chat_42 (Some ''token'')" "[]"]
  by blast

end
